theory Spec2Isabelle
  imports Main
begin

section \<open>Python values used by the editor\<close>

text \<open>
  A Python \<open>str\<close> is a sequence of Unicode code points; it is modelled as a list of
  natural numbers. A \<open>bytes\<close> object is a list of numbers below 256. \<open>str\<close> writes
  an ASCII literal of the source as such a list.
\<close>

type_synonym pystr = "nat list"

type_synonym pybytes = "nat list"

definition str :: "string \<Rightarrow> pystr" where
  "str s = map of_char s"

text \<open>Truthiness of \<open>tab.file_path\<close>, which is \<open>None\<close> or a \<open>str\<close>: both \<open>None\<close> and
  the empty string are false.\<close>

fun truthy :: "pystr option \<Rightarrow> bool" where
  "truthy None = False"
| "truthy (Some s) = (s \<noteq> [])"

text \<open>The exceptions that the modelled code can raise.\<close>

datatype exn =
    OSError pystr
  | CalledProcessError int pystr
  | UnicodeDecodeError
  | UnicodeEncodeError

datatype 'a res = Ok 'a | Raise exn

section \<open>Text encoding\<close>

text \<open>
  \<open>str.encode('utf-8')\<close> and \<open>bytes.decode()\<close> (UTF-8, error handler \<open>strict\<close>).
  Encoding raises \<open>UnicodeEncodeError\<close> on a surrogate code point; numbers from
  \<open>0x110000\<close> on are no code points and are rejected as well. Decoding raises
  \<open>UnicodeDecodeError\<close> on a byte that cannot start a character, on a missing or wrong
  continuation byte, on an overlong form, on an encoded surrogate and on a value beyond
  \<open>0x10FFFF\<close>.
\<close>

definition is_surrogate :: "nat \<Rightarrow> bool" where
  "is_surrogate c \<longleftrightarrow> 0xD800 \<le> c \<and> c \<le> 0xDFFF"

definition encode_char :: "nat \<Rightarrow> pybytes option" where
  "encode_char c =
     (if c < 0x80 then Some [c]
      else if c < 0x800 then Some [0xC0 + c div 64, 0x80 + c mod 64]
      else if c < 0x10000 then
        (if is_surrogate c then None
         else Some [0xE0 + c div 4096, 0x80 + (c div 64) mod 64, 0x80 + c mod 64])
      else if c < 0x110000 then
        Some [0xF0 + c div 262144, 0x80 + (c div 4096) mod 64,
              0x80 + (c div 64) mod 64, 0x80 + c mod 64]
      else None)"

fun encode_utf8 :: "pystr \<Rightarrow> pybytes res" where
  "encode_utf8 [] = Ok []"
| "encode_utf8 (c # cs) =
     (case encode_char c of
        None \<Rightarrow> Raise UnicodeEncodeError
      | Some bs \<Rightarrow>
          (case encode_utf8 cs of Ok r \<Rightarrow> Ok (bs @ r) | Raise x \<Rightarrow> Raise x))"

text \<open>
  A text that \<open>str.encode('utf-8')\<close> accepts: every code point is below \<open>0x110000\<close>
  and none is a surrogate.
\<close>

definition well_formed :: "pystr \<Rightarrow> bool" where
  "well_formed s \<longleftrightarrow> (\<forall>c \<in> set s. c < 0x110000 \<and> \<not> is_surrogate c)"

definition is_cont :: "nat \<Rightarrow> bool" where
  "is_cont b \<longleftrightarrow> 0x80 \<le> b \<and> b < 0xC0"

fun cons_res :: "nat \<Rightarrow> pystr res \<Rightarrow> pystr res" where
  "cons_res c (Ok s) = Ok (c # s)"
| "cons_res c (Raise x) = Raise x"

fun decode_utf8 :: "pybytes \<Rightarrow> pystr res" where
  "decode_utf8 [] = Ok []"
| "decode_utf8 (b0 # bs) =
     (if b0 < 0x80 then cons_res b0 (decode_utf8 bs)
      else if 0xC2 \<le> b0 \<and> b0 < 0xE0 then
        (case bs of
           b1 # r \<Rightarrow>
             if is_cont b1
             then cons_res ((b0 - 0xC0) * 64 + (b1 - 0x80)) (decode_utf8 r)
             else Raise UnicodeDecodeError
         | [] \<Rightarrow> Raise UnicodeDecodeError)
      else if 0xE0 \<le> b0 \<and> b0 < 0xF0 then
        (case bs of
           b1 # b2 # r \<Rightarrow>
             if is_cont b1 \<and> is_cont b2
                \<and> 0x800 \<le> (b0 - 0xE0) * 4096 + (b1 - 0x80) * 64 + (b2 - 0x80)
                \<and> \<not> is_surrogate ((b0 - 0xE0) * 4096 + (b1 - 0x80) * 64 + (b2 - 0x80))
             then cons_res ((b0 - 0xE0) * 4096 + (b1 - 0x80) * 64 + (b2 - 0x80))
                    (decode_utf8 r)
             else Raise UnicodeDecodeError
         | _ \<Rightarrow> Raise UnicodeDecodeError)
      else if 0xF0 \<le> b0 \<and> b0 < 0xF5 then
        (case bs of
           b1 # b2 # b3 # r \<Rightarrow>
             if is_cont b1 \<and> is_cont b2 \<and> is_cont b3
                \<and> 0x10000 \<le> (b0 - 0xF0) * 262144 + (b1 - 0x80) * 4096
                                 + (b2 - 0x80) * 64 + (b3 - 0x80)
                \<and> (b0 - 0xF0) * 262144 + (b1 - 0x80) * 4096
                     + (b2 - 0x80) * 64 + (b3 - 0x80) < 0x110000
             then cons_res ((b0 - 0xF0) * 262144 + (b1 - 0x80) * 4096
                            + (b2 - 0x80) * 64 + (b3 - 0x80)) (decode_utf8 r)
             else Raise UnicodeDecodeError
         | _ \<Rightarrow> Raise UnicodeDecodeError)
      else Raise UnicodeDecodeError)"

text \<open>
  \<open>str.strip()\<close> removes leading and trailing whitespace; \<open>isspace\<close> holds of the
  code points that Python counts as whitespace.
\<close>

definition isspace :: "nat \<Rightarrow> bool" where
  "isspace c \<longleftrightarrow>
     (0x09 \<le> c \<and> c \<le> 0x0D) \<or> (0x1C \<le> c \<and> c \<le> 0x20) \<or> c = 0x85 \<or> c = 0xA0
     \<or> c = 0x1680 \<or> (0x2000 \<le> c \<and> c \<le> 0x200A) \<or> c = 0x2028 \<or> c = 0x2029
     \<or> c = 0x202F \<or> c = 0x205F \<or> c = 0x3000"

definition strip :: "pystr \<Rightarrow> pystr" where
  "strip s = rev (dropWhile isspace (rev (dropWhile isspace s)))"

section \<open>\<open>os.path.splitext\<close>\<close>

text \<open>
  \<open>run_script\<close> derives the extension with \<open>os.path.splitext(tab.file_path)[1]\<close>. The
  editor is a Windows program, so \<open>os.path\<close> is \<open>ntpath\<close>, whose \<open>splitext\<close> calls
  \<open>genericpath._splitext(p, '\\', '/', '.')\<close>. \<open>rfind\<close> is \<open>str.rfind\<close> for a single
  character: the last index of the character, or \<open>-1\<close>.
\<close>

fun rfind_from :: "pystr \<Rightarrow> nat \<Rightarrow> int \<Rightarrow> int \<Rightarrow> int" where
  "rfind_from [] c i found = found"
| "rfind_from (x # xs) c i found = rfind_from xs c (i + 1) (if x = c then i else found)"

definition rfind :: "pystr \<Rightarrow> nat \<Rightarrow> int" where
  "rfind p c = rfind_from p c 0 (- 1)"

text \<open>The \<open>while\<close> loop of \<open>_splitext\<close> that skips leading dots of the file name: it
  answers whether some character in \<open>p[filenameIndex:dotIndex]\<close> is not the dot.\<close>

function skip_leading_dots :: "pystr \<Rightarrow> nat \<Rightarrow> int \<Rightarrow> int \<Rightarrow> bool" where
  "skip_leading_dots p extsep filenameIndex dotIndex =
     (if filenameIndex < dotIndex
      then (if p ! nat filenameIndex \<noteq> extsep then True
            else skip_leading_dots p extsep (filenameIndex + 1) dotIndex)
      else False)"
  by pat_completeness auto
termination
  by (relation "measure (\<lambda>(p, e, f, d). nat (d - f))") auto

declare skip_leading_dots.simps [simp del]

definition splitext_generic :: "pystr \<Rightarrow> nat \<Rightarrow> nat option \<Rightarrow> nat \<Rightarrow> pystr \<times> pystr" where
  "splitext_generic p sep altsep extsep =
     (let sepIndex0 = rfind p sep;
          sepIndex = (case altsep of None \<Rightarrow> sepIndex0
                      | Some a \<Rightarrow> max sepIndex0 (rfind p a));
          dotIndex = rfind p extsep
      in if dotIndex > sepIndex \<and> skip_leading_dots p extsep (sepIndex + 1) dotIndex
         then (take (nat dotIndex) p, drop (nat dotIndex) p)
         else (p, []))"

definition splitext :: "pystr \<Rightarrow> pystr \<times> pystr" where
  "splitext p = splitext_generic p 0x5C (Some 0x2F) 0x2E"

section \<open>The world outside the editor\<close>

text \<open>
  The effects of \<open>run_script\<close> are recorded in a \<open>world\<close>: the files on disk (path to
  text, as Python's text-mode files read and write it) and a journal of what happened,
  in order: a file was opened for writing (which creates it or empties it), a text was
  written to a file, the process launcher received a call, a message box was shown.
  \<open>dialogs\<close> and \<open>launches\<close> read the boxes shown and the launcher's calls off the
  journal.
\<close>

datatype dialog =
    Warning pystr pystr
  | Information pystr pystr

record spawn_request =
  args :: "pystr list"
  shell :: bool

datatype event =
    Opened pystr
  | Wrote pystr pystr
  | Launched spawn_request
  | Showed dialog

record world =
  disk :: "pystr \<Rightarrow> pystr option"
  journal :: "event list"

fun dialogs_of :: "event list \<Rightarrow> dialog list" where
  "dialogs_of [] = []"
| "dialogs_of (Showed d # es) = d # dialogs_of es"
| "dialogs_of (ev # es) = dialogs_of es"

fun launches_of :: "event list \<Rightarrow> spawn_request list" where
  "launches_of [] = []"
| "launches_of (Launched q # es) = q # launches_of es"
| "launches_of (ev # es) = launches_of es"

definition dialogs :: "world \<Rightarrow> dialog list" where
  "dialogs w = dialogs_of (journal w)"

definition launches :: "world \<Rightarrow> spawn_request list" where
  "launches w = launches_of (journal w)"

text \<open>
  What the operating system answers to a launch: the child ran and exited with a return
  code and the bytes captured from its merged standard output and error, or no child
  process could be created.
\<close>

datatype proc_result =
    Exited int pybytes
  | NotCreated pystr

text \<open>
  The environment of a run, which the code does not control: whether \<open>open(path, "w")\<close>
  fails (with the text of the \<open>OSError\<close>); what a launched process answers given the
  disk, and the disk it leaves behind (a script may write, rewrite or delete files,
  its own included); how \<open>subprocess\<close> turns the captured bytes into text in text mode,
  which is a strict decode in the locale's encoding followed by the translation of line
  ends (\<open>None\<close> when the bytes do not decode); and the path answered by the file dialog
  of \<open>ScriptTab.save\<close> (empty when cancelled).
\<close>

record env =
  open_fails :: "pystr \<Rightarrow> pystr option"
  run_process :: "(pystr \<Rightarrow> pystr option) \<Rightarrow> spawn_request \<Rightarrow> proc_result"
  child_effect :: "(pystr \<Rightarrow> pystr option) \<Rightarrow> spawn_request \<Rightarrow> (pystr \<Rightarrow> pystr option)"
  decode_output :: "pybytes \<Rightarrow> pystr option"
  save_dialog :: pystr

section \<open>\<open>ScriptTab\<close> and \<open>ScriptEditor.run_script\<close>\<close>

record script_tab =
  file_path :: "pystr option"
  buffer :: pystr

text \<open>
  \<open>ScriptTab.save\<close>: asks for a path when the tab has none; when there is a path it
  opens the file for writing with the encoding UTF-8, which creates or empties the
  file, writes the buffer and returns \<open>True\<close>; it returns \<open>False\<close> otherwise. The
  \<open>open\<close> can raise \<open>OSError\<close>; the \<open>write\<close> raises \<open>UnicodeEncodeError\<close> when the
  buffer cannot be encoded, and the file, already opened, is then left empty. The
  result is the returned value or the exception, the tab and the world afterwards.
\<close>

definition save :: "env \<Rightarrow> script_tab \<Rightarrow> world \<Rightarrow> bool res \<times> script_tab \<times> world" where
  "save e tab w =
     (let tab1 = (if \<not> truthy (file_path tab)
                  then tab\<lparr>file_path := Some (save_dialog e)\<rparr> else tab)
      in case file_path tab1 of
           None \<Rightarrow> (Ok False, tab1, w)
         | Some p \<Rightarrow>
             if p \<noteq> [] then
               (case open_fails e p of
                  Some msg \<Rightarrow> (Raise (OSError msg), tab1, w)
                | None \<Rightarrow>
                    (let w1 = w\<lparr>disk := (disk w)(p \<mapsto> []),
                                 journal := journal w @ [Opened p]\<rparr>
                     in case encode_utf8 (buffer tab1) of
                          Raise x \<Rightarrow> (Raise x, tab1, w1)
                        | Ok bs \<Rightarrow>
                            (Ok True, tab1,
                             w1\<lparr>disk := (disk w1)(p \<mapsto> buffer tab1),
                                journal := journal w1 @ [Wrote p (buffer tab1)]\<rparr>)))
             else (Ok False, tab1, w))"

text \<open>
  \<open>subprocess.check_output(cmd, stderr=subprocess.STDOUT, text=True, shell=...)\<close>: the
  launcher receives the call. When no process could be created, \<open>OSError\<close> is raised.
  Otherwise the child runs, on the disk as it is, and leaves its own disk behind; the
  captured bytes are decoded, which raises \<open>UnicodeDecodeError\<close> when they do not
  decode, whatever the return code; then the text is returned when the return code is
  zero and \<open>CalledProcessError\<close>, carrying the text, is raised when it is not.
\<close>

definition check_output :: "env \<Rightarrow> pystr list \<Rightarrow> bool \<Rightarrow> world \<Rightarrow> pystr res \<times> world" where
  "check_output e cmd sh w =
     (let req = \<lparr>args = cmd, shell = sh\<rparr>;
          w1 = w\<lparr>journal := journal w @ [Launched req]\<rparr>
      in case run_process e (disk w) req of
           NotCreated msg \<Rightarrow> (Raise (OSError msg), w1)
         | Exited rc out \<Rightarrow>
             (let w2 = w1\<lparr>disk := child_effect e (disk w) req\<rparr>
              in case decode_output e out of
                   None \<Rightarrow> (Raise UnicodeDecodeError, w2)
                 | Some t \<Rightarrow>
                     if rc = 0 then (Ok t, w2) else (Raise (CalledProcessError rc t), w2)))"

text \<open>The \<open>if\<close>/\<open>elif\<close> chain of \<open>run_script\<close> that builds \<open>cmd\<close> from the extension;
  \<open>None\<close> is its \<open>else\<close> branch.\<close>

definition interpreter_cmd :: "pystr \<Rightarrow> pystr \<Rightarrow> pystr list option" where
  "interpreter_cmd ext p =
     (if ext = str ''.py'' then Some [str ''python'', p]
      else if ext = str ''.bat'' then Some [str ''cmd.exe'', str ''/c'', p]
      else if ext = str ''.ps1'' then Some [str ''powershell'', str ''-File'', p]
      else None)"

record outcome =
  raised :: "exn option"
  tab_after :: "script_tab option"
  world_after :: world

definition message_box :: "dialog \<Rightarrow> world \<Rightarrow> world" where
  "message_box d w = w\<lparr>journal := journal w @ [Showed d]\<rparr>"

text \<open>
  \<open>ScriptEditor.run_script\<close>, the same in both editors. The argument \<open>cur\<close> is what
  \<open>self.current_tab()\<close> returns: the current \<open>ScriptTab\<close> or \<open>None\<close>.
\<close>

definition run_script :: "env \<Rightarrow> script_tab option \<Rightarrow> world \<Rightarrow> outcome" where
  "run_script e cur w =
     (case cur of
        None \<Rightarrow>
          \<lparr>raised = None, tab_after = cur,
           world_after = message_box (Warning (str ''Run Script'')
             (str ''You must save your script before running it!'')) w\<rparr>
      | Some tab \<Rightarrow>
          (case file_path tab of
             None \<Rightarrow>
               \<lparr>raised = None, tab_after = cur,
                world_after = message_box (Warning (str ''Run Script'')
                  (str ''You must save your script before running it!'')) w\<rparr>
           | Some p \<Rightarrow>
               if p = [] then
                 \<lparr>raised = None, tab_after = cur,
                  world_after = message_box (Warning (str ''Run Script'')
                    (str ''You must save your script before running it!'')) w\<rparr>
               else
                 (case interpreter_cmd (snd (splitext p)) p of
                    None \<Rightarrow>
                      \<lparr>raised = None, tab_after = cur,
                       world_after = message_box (Warning (str ''Run Script'')
                         (str ''Unsupported script type!'')) w\<rparr>
                  | Some cmd \<Rightarrow>
                      (case save e tab w of
                         (Raise x, tab1, w1) \<Rightarrow>
                           \<lparr>raised = Some x, tab_after = Some tab1, world_after = w1\<rparr>
                       | (Ok saved, tab1, w1) \<Rightarrow>
                           (case check_output e cmd True w1 of
                              (Ok out, w2) \<Rightarrow>
                                \<lparr>raised = None, tab_after = Some tab1,
                                 world_after = message_box (Information
                                   (str ''Execution Output'') out) w2\<rparr>
                            | (Raise (CalledProcessError rc out), w2) \<Rightarrow>
                                \<lparr>raised = None, tab_after = Some tab1,
                                 world_after = message_box (Warning
                                   (str ''Execution Error'') out) w2\<rparr>
                            | (Raise x, w2) \<Rightarrow>
                                \<lparr>raised = Some x, tab_after = Some tab1,
                                 world_after = w2\<rparr>)))))"

section \<open>\<open>QProcess\<close> and \<open>TerminalWidget\<close>\<close>

text \<open>
  The part of Qt's \<open>QProcess\<close> that the terminal uses. A \<open>QProcess\<close> is not running
  or running; it records the programs it has spawned, the bytes delivered to the
  standard input of its child, and the bytes of the child's output and error streams
  that have arrived and are not read yet. \<open>start\<close> spawns only when nothing is running
  (and when the system can spawn the program); \<open>readAllStandardOutput\<close> and
  \<open>readAllStandardError\<close> return the unread bytes and empty the buffer.
  \<open>qprocess_write\<close> is \<open>write\<close> as Qt describes it: the bytes reach a child only
  while one is running and are refused otherwise (its integer result, which the source
  ignores, is left out). The source never asks whether the process runs, so what
  \<open>write\<close> does is not taken for granted: \<open>handle_keypress\<close> below takes it as a
  parameter.
\<close>

datatype process_state = NotRunning | Running

record qprocess =
  pstate :: process_state
  started :: "pystr list"
  child_stdin :: pybytes
  stdout_buf :: pybytes
  stderr_buf :: pybytes

definition QProcess :: qprocess where
  "QProcess = \<lparr>pstate = NotRunning, started = [], child_stdin = [],
                stdout_buf = [], stderr_buf = []\<rparr>"

definition qprocess_start :: "bool \<Rightarrow> pystr \<Rightarrow> qprocess \<Rightarrow> qprocess" where
  "qprocess_start can_spawn program p =
     (if pstate p = NotRunning \<and> can_spawn
      then p\<lparr>pstate := Running, started := started p @ [program]\<rparr>
      else p)"

definition qprocess_write :: "pybytes \<Rightarrow> qprocess \<Rightarrow> qprocess" where
  "qprocess_write data p =
     (if pstate p = Running then p\<lparr>child_stdin := child_stdin p @ data\<rparr> else p)"

definition readAllStandardOutput :: "qprocess \<Rightarrow> pybytes \<times> qprocess" where
  "readAllStandardOutput p = (stdout_buf p, p\<lparr>stdout_buf := []\<rparr>)"

definition readAllStandardError :: "qprocess \<Rightarrow> pybytes \<times> qprocess" where
  "readAllStandardError p = (stderr_buf p, p\<lparr>stderr_buf := []\<rparr>)"

text \<open>What the child process does to its \<open>QProcess\<close>: it exits, or a chunk of bytes
  arrives on one of its streams.\<close>

definition child_exits :: "qprocess \<Rightarrow> qprocess" where
  "child_exits p = p\<lparr>pstate := NotRunning\<rparr>"

definition stdout_arrives :: "pybytes \<Rightarrow> qprocess \<Rightarrow> qprocess" where
  "stdout_arrives chunk p = p\<lparr>stdout_buf := stdout_buf p @ chunk\<rparr>"

definition stderr_arrives :: "pybytes \<Rightarrow> qprocess \<Rightarrow> qprocess" where
  "stderr_arrives chunk p = p\<lparr>stderr_buf := stderr_buf p @ chunk\<rparr>"

text \<open>
  \<open>TerminalWidget\<close>: its process, the paragraphs appended to the read-only output
  view, and the text of the input box.
\<close>

record terminal_widget =
  process :: qprocess
  output_log :: "pystr list"
  input_text :: pystr

definition TerminalWidget :: terminal_widget where
  "TerminalWidget = \<lparr>process = QProcess, output_log = [], input_text = []\<rparr>"

definition Key_Return :: int where
  "Key_Return = 0x01000004"

text \<open>\<open>TerminalWidget.handle_keypress\<close>, with \<open>self.process.write\<close> and \<open>event.key()\<close>
  as arguments. The result is the exception raised, if any, and the widget afterwards.\<close>

definition handle_keypress ::
  "(pybytes \<Rightarrow> qprocess \<Rightarrow> qprocess) \<Rightarrow> int \<Rightarrow> terminal_widget
     \<Rightarrow> exn option \<times> terminal_widget" where
  "handle_keypress write key tw =
     (if key = Key_Return then
        (let command = strip (input_text tw);
             tw1 = tw\<lparr>input_text := []\<rparr>
         in if command \<noteq> [] then
              (case encode_utf8 (command @ [0x0A]) of
                 Raise x \<Rightarrow> (Some x, tw1)
               | Ok data \<Rightarrow> (None, tw1\<lparr>process := write data (process tw1)\<rparr>))
            else (None, tw1))
      else (None, tw))"

text \<open>\<open>TerminalWidget.start\<close>; the source's default for \<open>shell\<close> is \<open>"cmd.exe"\<close>.\<close>

definition start :: "bool \<Rightarrow> pystr \<Rightarrow> terminal_widget \<Rightarrow> terminal_widget" where
  "start can_spawn shell_cmd tw =
     tw\<lparr>process := qprocess_start can_spawn shell_cmd (process tw)\<rparr>"

text \<open>\<open>TerminalWidget.on_stdout\<close> and \<open>TerminalWidget.on_stderr\<close>.\<close>

definition on_stdout :: "terminal_widget \<Rightarrow> exn option \<times> terminal_widget" where
  "on_stdout tw =
     (case readAllStandardOutput (process tw) of
        (bs, p1) \<Rightarrow>
          (case decode_utf8 bs of
             Raise x \<Rightarrow> (Some x, tw\<lparr>process := p1\<rparr>)
           | Ok data \<Rightarrow> (None, tw\<lparr>process := p1, output_log := output_log tw @ [data]\<rparr>)))"

definition on_stderr :: "terminal_widget \<Rightarrow> exn option \<times> terminal_widget" where
  "on_stderr tw =
     (case readAllStandardError (process tw) of
        (bs, p1) \<Rightarrow>
          (case decode_utf8 bs of
             Raise x \<Rightarrow> (Some x, tw\<lparr>process := p1\<rparr>)
           | Ok data \<Rightarrow> (None, tw\<lparr>process := p1, output_log := output_log tw @ [data]\<rparr>)))"

text \<open>
  The event loop delivering a sequence of chunks: each chunk arrives on its stream and
  the slot connected to the stream's signal runs; an exception ends the sequence.
\<close>

datatype stream = Stdout | Stderr

fun deliver :: "(stream \<times> pybytes) list \<Rightarrow> terminal_widget \<Rightarrow> exn option \<times> terminal_widget" where
  "deliver [] tw = (None, tw)"
| "deliver ((Stdout, chunk) # cs) tw =
     (case on_stdout (tw\<lparr>process := stdout_arrives chunk (process tw)\<rparr>) of
        (None, tw1) \<Rightarrow> deliver cs tw1
      | (Some x, tw1) \<Rightarrow> (Some x, tw1))"
| "deliver ((Stderr, chunk) # cs) tw =
     (case on_stderr (tw\<lparr>process := stderr_arrives chunk (process tw)\<rparr>) of
        (None, tw1) \<Rightarrow> deliver cs tw1
      | (Some x, tw1) \<Rightarrow> (Some x, tw1))"

section \<open>The command line on Windows\<close>

text \<open>
  What \<open>subprocess.Popen\<close> does with the arguments on Windows: a list is joined by
  \<open>subprocess.list2cmdline\<close>, which quotes an argument only when it is empty or holds a
  space or a tab, and escapes double quotes and the backslashes before them; with
  \<open>shell=True\<close> the joined line is wrapped as \<open>{comspec} /c "{line}"\<close> and the command
  interpreter \<open>comspec\<close> reads it.
\<close>

fun arg_loop :: "pystr \<Rightarrow> nat \<Rightarrow> pystr \<times> nat" where
  "arg_loop [] n = ([], n)"
| "arg_loop (c # cs) n =
     (if c = 0x5C then arg_loop cs (n + 1)
      else if c = 0x22 then
        (case arg_loop cs 0 of (r, m) \<Rightarrow> (replicate (n * 2) 0x5C @ [0x5C, 0x22] @ r, m))
      else
        (case arg_loop cs 0 of (r, m) \<Rightarrow> (replicate n 0x5C @ [c] @ r, m)))"

definition quote_arg :: "pystr \<Rightarrow> pystr" where
  "quote_arg arg =
     (let needquote = (0x20 \<in> set arg \<or> 0x09 \<in> set arg \<or> arg = [])
      in case arg_loop arg 0 of
           (body, m) \<Rightarrow>
             (if needquote then [0x22] else []) @ body @ replicate m 0x5C
             @ (if needquote then replicate m 0x5C @ [0x22] else []))"

fun list2cmdline_from :: "pystr list \<Rightarrow> pystr \<Rightarrow> pystr" where
  "list2cmdline_from [] result = result"
| "list2cmdline_from (arg # seq) result =
     list2cmdline_from seq
       ((if result \<noteq> [] then result @ [0x20] else result) @ quote_arg arg)"

definition list2cmdline :: "pystr list \<Rightarrow> pystr" where
  "list2cmdline seq = list2cmdline_from seq []"

definition popen_command_line :: "pystr \<Rightarrow> spawn_request \<Rightarrow> pystr" where
  "popen_command_line comspec req =
     (let line = list2cmdline (args req)
      in if shell req then comspec @ str '' /c '' @ [0x22] @ line @ [0x22] else line)"

section \<open>Concrete inputs\<close>

text \<open>
  Inputs at which the theorems below are evaluated: a disk without files and a world
  in which nothing has happened; the text mode of a locale whose encoding is UTF-8;
  environments in which every file can be opened for writing, every launch gives the
  same answer and the child leaves the disk as it is; a child that deletes the script
  it was given; tabs with a path and a buffer; a terminal whose shell runs, with a
  text in its input box.
\<close>

definition no_files :: "pystr \<Rightarrow> pystr option" where
  "no_files = (\<lambda>p. None)"

definition fresh_world :: world where
  "fresh_world = \<lparr>disk = no_files, journal = []\<rparr>"

fun translate_newlines :: "pystr \<Rightarrow> pystr" where
  "translate_newlines [] = []"
| "translate_newlines [c] = (if c = 0x0D then [0x0A] else [c])"
| "translate_newlines (c # d # r) =
     (if c = 0x0D \<and> d = 0x0A then 0x0A # translate_newlines r
      else if c = 0x0D then 0x0A # translate_newlines (d # r)
      else c # translate_newlines (d # r))"

definition utf8_text_mode :: "pybytes \<Rightarrow> pystr option" where
  "utf8_text_mode bs =
     (case decode_utf8 bs of Ok s \<Rightarrow> Some (translate_newlines s) | Raise x \<Rightarrow> None)"

definition leaves_disk :: "(pystr \<Rightarrow> pystr option) \<Rightarrow> spawn_request \<Rightarrow> (pystr \<Rightarrow> pystr option)" where
  "leaves_disk d q = d"


definition answers :: "proc_result \<Rightarrow> (pystr \<Rightarrow> pystr option) \<Rightarrow> spawn_request \<Rightarrow> proc_result" where
  "answers r d q = r"

definition never_fails :: "pystr \<Rightarrow> pystr option" where
  "never_fails p = None"

definition env_answering :: "proc_result \<Rightarrow> env" where
  "env_answering r =
     \<lparr>open_fails = never_fails, run_process = answers r, child_effect = leaves_disk,
      decode_output = utf8_text_mode, save_dialog = []\<rparr>"

definition tab_of :: "string \<Rightarrow> string \<Rightarrow> script_tab" where
  "tab_of path content = \<lparr>file_path = Some (str path), buffer = str content\<rparr>"

definition world_with :: "string \<Rightarrow> string \<Rightarrow> world" where
  "world_with path content = fresh_world\<lparr>disk := no_files(str path \<mapsto> str content)\<rparr>"

definition terminal_typed :: "string \<Rightarrow> terminal_widget" where
  "terminal_typed typed =
     (start True (str ''cmd.exe'') TerminalWidget)\<lparr>input_text := str typed\<rparr>"

section \<open>Properties of the text encoding\<close>

lemma div4096: "(c::nat) div 4096 = c div 64 div 64"
  by (simp add: div_mult2_eq [symmetric])

lemma div262144: "(c::nat) div 262144 = c div 64 div 64 div 64"
  by (simp add: div_mult2_eq [symmetric])

lemma recompose3: "(c::nat) div 4096 * 4096 + c div 64 mod 64 * 64 + c mod 64 = c"
proof -
  define a where "a = c div 64"
  define b where "b = a div 64"
  have 1: "c = a * 64 + c mod 64" by (simp add: a_def)
  have 2: "a = b * 64 + a mod 64" by (simp add: b_def)
  have "b * 4096 + a mod 64 * 64 + c mod 64 = (b * 64 + a mod 64) * 64 + c mod 64"
    by (simp add: algebra_simps)
  also have "\<dots> = c" using 1 2 by simp
  finally show ?thesis by (simp add: div4096 a_def b_def)
qed

lemma recompose4:
  "(c::nat) div 262144 * 262144 + c div 4096 mod 64 * 4096 + c div 64 mod 64 * 64 + c mod 64 = c"
proof -
  define a where "a = c div 64"
  define b where "b = a div 64"
  define d where "d = b div 64"
  have 1: "c = a * 64 + c mod 64" by (simp add: a_def)
  have 2: "a = b * 64 + a mod 64" by (simp add: b_def)
  have 3: "b = d * 64 + b mod 64" by (simp add: d_def)
  have "d * 262144 + b mod 64 * 4096 + a mod 64 * 64 + c mod 64
      = ((d * 64 + b mod 64) * 64 + a mod 64) * 64 + c mod 64"
    by (simp add: algebra_simps)
  also have "\<dots> = (b * 64 + a mod 64) * 64 + c mod 64" using 3 by simp
  also have "\<dots> = c" using 1 2 by simp
  finally show ?thesis by (simp add: div4096 div262144 a_def b_def d_def)
qed

lemma div_bounds:
  fixes c :: nat
  shows "128 \<le> c \<Longrightarrow> 2 \<le> c div 64" "c < 2048 \<Longrightarrow> c div 64 < 32"
    "c < 65536 \<Longrightarrow> c div 4096 < 16" "c < 1114112 \<Longrightarrow> c div 262144 < 5"
  by (simp_all add: less_mult_imp_div_less le_div_geq)

lemma encode_char_cases:
  assumes "encode_char c = Some cb"
  obtains (one) "c < 0x80" "cb = [c]"
    | (two) "0x80 \<le> c" "c < 0x800" "cb = [0xC0 + c div 64, 0x80 + c mod 64]"
    | (three) "0x800 \<le> c" "c < 0x10000" "\<not> is_surrogate c"
        "cb = [0xE0 + c div 4096, 0x80 + (c div 64) mod 64, 0x80 + c mod 64]"
    | (four) "0x10000 \<le> c" "c < 0x110000"
        "cb = [0xF0 + c div 262144, 0x80 + (c div 4096) mod 64,
               0x80 + (c div 64) mod 64, 0x80 + c mod 64]"
  using assms by (auto simp: encode_char_def split: if_splits)

lemma decode_encode_char:
  assumes "encode_char c = Some cb"
  shows "decode_utf8 (cb @ r) = cons_res c (decode_utf8 r)"
  using assms
proof (cases rule: encode_char_cases)
  case one
  then show ?thesis by simp
next
  case two
  have "2 \<le> c div 64" "c div 64 < 32" using two div_bounds by simp_all
  then show ?thesis
    by (simp add: two(3) is_cont_def)
next
  case three
  have "c div 4096 < 16" using three div_bounds by simp
  then show ?thesis
    using three(1,3) by (simp add: three(4) is_cont_def recompose3)
next
  case four
  have "c div 262144 < 5" using four div_bounds by simp
  then show ?thesis
    using four(1,2) by (simp add: four(3) is_cont_def recompose4)
qed

lemma decode_encode_append:
  "encode_utf8 s = Ok bs \<Longrightarrow>
   decode_utf8 (bs @ r) = (case decode_utf8 r of Ok t \<Rightarrow> Ok (s @ t) | Raise x \<Rightarrow> Raise x)"
proof (induction s arbitrary: bs)
  case Nil
  then show ?case by (simp split: res.splits)
next
  case (Cons c s)
  then obtain cb rest where cb: "encode_char c = Some cb" and rest: "encode_utf8 s = Ok rest"
    and bs: "bs = cb @ rest"
    by (auto split: option.splits res.splits)
  have "decode_utf8 (bs @ r) = cons_res c (decode_utf8 (rest @ r))"
    using decode_encode_char [OF cb, of "rest @ r"] by (simp add: bs)
  then show ?case
    using Cons.IH [OF rest] by (simp split: res.splits)
qed

lemma decode_encode: "encode_utf8 s = Ok bs \<Longrightarrow> decode_utf8 bs = Ok s"
  using decode_encode_append [of s bs "[]"] by simp

lemma decode_truncated_char:
  assumes "encode_char c = Some cb" and "0 < n" and "n < length cb"
  shows "decode_utf8 (take n cb) = Raise UnicodeDecodeError"
  using assms(1)
proof (cases rule: encode_char_cases)
  case one
  then show ?thesis using assms by simp
next
  case two
  have n: "n = 1" using assms two by simp
  have "2 \<le> c div 64" "c div 64 < 32" using two div_bounds by simp_all
  then show ?thesis by (simp add: two(3) n)
next
  case three
  have n: "n = 1 \<or> n = 2" using assms three by auto
  have "c div 4096 < 16" using three div_bounds by simp
  then show ?thesis using n by (auto simp: three(4))
next
  case four
  have n: "n = 1 \<or> n = 2 \<or> n = 3" using assms four by auto
  have "c div 262144 < 5" using four div_bounds by simp
  then show ?thesis using n by (auto simp: four(3) numeral_3_eq_3)
qed

lemma encode_append:
  "encode_utf8 (s @ t) =
     (case encode_utf8 s of
        Raise x \<Rightarrow> Raise x
      | Ok bs \<Rightarrow> (case encode_utf8 t of Raise x \<Rightarrow> Raise x | Ok bt \<Rightarrow> Ok (bs @ bt)))"
  by (induction s) (auto split: option.splits res.splits)

lemma cons_res_Raise: "cons_res c r = Raise x \<longleftrightarrow> r = Raise x"
  by (cases r) auto

lemma encode_char_well_formed:
  "c < 0x110000 \<Longrightarrow> \<not> is_surrogate c \<Longrightarrow> encode_char c \<noteq> None"
  by (simp add: encode_char_def)

lemma encode_well_formed: "well_formed s \<Longrightarrow> \<exists>bs. encode_utf8 s = Ok bs"
proof (induction s)
  case Nil
  then show ?case by simp
next
  case (Cons c s)
  then obtain bs where "encode_utf8 s = Ok bs" by (auto simp: well_formed_def)
  moreover obtain cb where "encode_char c = Some cb"
    using Cons.prems encode_char_well_formed [of c] by (auto simp: well_formed_def)
  ultimately show ?case by simp
qed

lemma set_strip: "set (strip s) \<subseteq> set s"
proof -
  have "set (strip s) \<subseteq> set (dropWhile isspace s)"
    unfolding strip_def using set_dropWhileD [of _ isspace "rev (dropWhile isspace s)"] by auto
  also have "\<dots> \<subseteq> set s" using set_dropWhileD [of _ isspace s] by auto
  finally show ?thesis .
qed

lemma well_formed_strip: "well_formed s \<Longrightarrow> well_formed (strip s)"
  using set_strip [of s] by (auto simp: well_formed_def)

lemma encode_newline:
  "encode_utf8 (s @ [0x0A]) =
     (case encode_utf8 s of Raise x \<Rightarrow> Raise x | Ok bs \<Rightarrow> Ok (bs @ [0x0A]))"
  by (simp add: encode_append encode_char_def split: res.splits)

lemma decode_raises: "decode_utf8 bs = Raise x \<Longrightarrow> x = UnicodeDecodeError"
proof (induction bs rule: decode_utf8.induct)
  case 1
  then show ?case by simp
next
  case (2 b0 bs)
  consider (one) "b0 < 0x80"
    | (two) "\<not> b0 < 0x80" "0xC2 \<le> b0 \<and> b0 < 0xE0"
    | (three) "\<not> b0 < 0x80" "\<not> (0xC2 \<le> b0 \<and> b0 < 0xE0)" "0xE0 \<le> b0 \<and> b0 < 0xF0"
    | (four) "\<not> b0 < 0x80" "\<not> (0xC2 \<le> b0 \<and> b0 < 0xE0)" "\<not> (0xE0 \<le> b0 \<and> b0 < 0xF0)"
        "0xF0 \<le> b0 \<and> b0 < 0xF5"
    | (other) "\<not> b0 < 0x80" "\<not> (0xC2 \<le> b0 \<and> b0 < 0xE0)" "\<not> (0xE0 \<le> b0 \<and> b0 < 0xF0)"
        "\<not> (0xF0 \<le> b0 \<and> b0 < 0xF5)"
    by blast
  then show ?case
  proof cases
    case one
    then show ?thesis using "2.prems" "2.IH"(1) by (simp add: cons_res_Raise)
  next
    case two
    show ?thesis
    proof (cases bs)
      case Nil
      then show ?thesis using "2.prems" two by simp
    next
      case (Cons b1 r)
      then show ?thesis
        using "2.prems" two "2.IH"(2) [OF two(1) two(2) Cons]
        by (simp add: cons_res_Raise split: if_splits)
    qed
  next
    case three
    show ?thesis
    proof (cases bs)
      case Nil
      then show ?thesis using "2.prems" three by simp
    next
      case c1: (Cons b1 r1)
      show ?thesis
      proof (cases r1)
        case Nil
        then show ?thesis using "2.prems" three c1 by simp
      next
        case c2: (Cons b2 r)
        then show ?thesis
          using "2.prems" three c1 "2.IH"(3) [OF three(1) three(2) three(3) c1 c2]
          by (simp add: cons_res_Raise split: if_splits)
      qed
    qed
  next
    case four
    show ?thesis
    proof (cases bs)
      case Nil
      then show ?thesis using "2.prems" four by simp
    next
      case c1: (Cons b1 r1)
      show ?thesis
      proof (cases r1)
        case Nil
        then show ?thesis using "2.prems" four c1 by simp
      next
        case c2: (Cons b2 r2)
        show ?thesis
        proof (cases r2)
          case Nil
          then show ?thesis using "2.prems" four c1 c2 by simp
        next
          case c3: (Cons b3 r)
          then show ?thesis
            using "2.prems" four c1 c2
              "2.IH"(4) [OF four(1) four(2) four(3) four(4) c1 c2 c3]
            by (simp add: cons_res_Raise split: if_splits)
        qed
      qed
    qed
  next
    case other
    have "decode_utf8 (b0 # bs) = Raise UnicodeDecodeError"
      by (subst decode_utf8.simps) (simp only: other if_False)
    then show ?thesis using "2.prems" by simp
  qed
qed

lemma encode_char_None: "encode_char c = None \<longleftrightarrow> \<not> (c < 0x110000 \<and> \<not> is_surrogate c)"
  by (auto simp: encode_char_def is_surrogate_def)

lemma encode_raises: "encode_utf8 s = Raise x \<Longrightarrow> x = UnicodeEncodeError"
  by (induction s) (auto split: option.splits res.splits)

lemma encode_ill_formed: "\<not> well_formed s \<Longrightarrow> encode_utf8 s = Raise UnicodeEncodeError"
proof (induction s)
  case Nil
  then show ?case by (simp add: well_formed_def)
next
  case (Cons c s)
  show ?case
  proof (cases "encode_char c")
    case None
    then show ?thesis by simp
  next
    case (Some cb)
    then have "c < 0x110000 \<and> \<not> is_surrogate c"
      using encode_char_None [of c] by simp
    then have "\<not> well_formed s"
      using Cons.prems by (simp add: well_formed_def)
    then show ?thesis
      using Cons.IH Some by simp
  qed
qed

lemma encode_newline_ill_formed:
  "\<not> well_formed s \<Longrightarrow> encode_utf8 (s @ [0x0A]) = Raise UnicodeEncodeError"
  by (simp add: encode_newline encode_ill_formed)

lemma of_char_below: "of_char c < (256::nat)"
proof -
  have "(of_char c :: nat) mod 256 = of_char c" by (rule of_char_mod_256)
  moreover have "(of_char c :: nat) mod 256 < 256" by simp
  ultimately show ?thesis by simp
qed

lemma well_formed_str [simp]: "well_formed (str s)"
proof -
  have "c < 0x110000 \<and> \<not> is_surrogate c" if "c \<in> set (str s)" for c
  proof -
    from that obtain ch where "c = of_char ch" by (auto simp: str_def)
    then have "c < 256" using of_char_below [of ch] by simp
    then show ?thesis by (simp add: is_surrogate_def)
  qed
  then show ?thesis by (simp add: well_formed_def)
qed

section \<open>Properties of \<open>run_script\<close>\<close>

lemma dialogs_of_append [simp]: "dialogs_of (xs @ ys) = dialogs_of xs @ dialogs_of ys"
  by (induction xs rule: dialogs_of.induct) simp_all

lemma launches_of_append [simp]: "launches_of (xs @ ys) = launches_of xs @ launches_of ys"
  by (induction xs rule: launches_of.induct) simp_all

lemma str_neq [simp]:
  "str ''.bat'' \<noteq> str ''.py''" "str ''.ps1'' \<noteq> str ''.py''" "str ''.ps1'' \<noteq> str ''.bat''"
  by (simp_all add: str_def)

lemma str_nonempty [simp]: "str (c # cs) \<noteq> []"
  by (simp add: str_def)

lemma interpreter_cmd_None:
  "interpreter_cmd ext p = None \<longleftrightarrow> ext \<notin> {str ''.py'', str ''.bat'', str ''.ps1''}"
  by (simp add: interpreter_cmd_def)

lemma cmd_py: "interpreter_cmd (str ''.py'') p = Some [str ''python'', p]"
  by (simp add: interpreter_cmd_def)

lemma save_with_path:
  assumes "file_path tab = Some p" and "p \<noteq> []"
  shows "save e tab w =
    (case open_fails e p of
       Some msg \<Rightarrow> (Raise (OSError msg), tab, w)
     | None \<Rightarrow>
         if well_formed (buffer tab)
         then (Ok True, tab, w\<lparr>disk := (disk w)(p \<mapsto> buffer tab),
                                journal := journal w @ [Opened p, Wrote p (buffer tab)]\<rparr>)
         else (Raise UnicodeEncodeError, tab,
               w\<lparr>disk := (disk w)(p \<mapsto> []), journal := journal w @ [Opened p]\<rparr>))"
proof (cases "well_formed (buffer tab)")
  case True
  then obtain bs where "encode_utf8 (buffer tab) = Ok bs"
    using encode_well_formed by blast
  then show ?thesis
    using assms True by (simp add: save_def Let_def split: option.splits)
next
  case False
  then have "encode_utf8 (buffer tab) = Raise UnicodeEncodeError"
    by (rule encode_ill_formed)
  then show ?thesis
    using assms False by (simp add: save_def Let_def split: option.splits)
qed

lemma run_script_unsupported:
  assumes "file_path tab = Some p" and "p \<noteq> []"
    and "interpreter_cmd (snd (splitext p)) p = None"
  shows "run_script e (Some tab) w =
    \<lparr>raised = None, tab_after = Some tab,
     world_after = w\<lparr>journal := journal w @
       [Showed (Warning (str ''Run Script'') (str ''Unsupported script type!''))]\<rparr>\<rparr>"
  using assms by (simp add: run_script_def message_box_def)

lemma run_script_open_fails:
  assumes "file_path tab = Some p" and "p \<noteq> []"
    and "interpreter_cmd (snd (splitext p)) p = Some cmd"
    and "open_fails e p = Some msg"
  shows "run_script e (Some tab) w =
    \<lparr>raised = Some (OSError msg), tab_after = Some tab, world_after = w\<rparr>"
  using assms by (simp add: run_script_def save_with_path)

lemma run_script_write_fails:
  assumes "file_path tab = Some p" and "p \<noteq> []"
    and "interpreter_cmd (snd (splitext p)) p = Some cmd"
    and "open_fails e p = None" and "\<not> well_formed (buffer tab)"
  shows "run_script e (Some tab) w =
    \<lparr>raised = Some UnicodeEncodeError, tab_after = Some tab,
     world_after = w\<lparr>disk := (disk w)(p \<mapsto> []), journal := journal w @ [Opened p]\<rparr>\<rparr>"
  using assms by (simp add: run_script_def save_with_path)

lemma run_script_launches:
  assumes "file_path tab = Some p" and "p \<noteq> []"
    and "interpreter_cmd (snd (splitext p)) p = Some cmd"
    and "open_fails e p = None" and "well_formed (buffer tab)"
  shows "run_script e (Some tab) w =
    (case run_process e ((disk w)(p \<mapsto> buffer tab)) \<lparr>args = cmd, shell = True\<rparr> of
       NotCreated msg \<Rightarrow>
         \<lparr>raised = Some (OSError msg), tab_after = Some tab,
          world_after = w\<lparr>disk := (disk w)(p \<mapsto> buffer tab),
            journal := journal w @ [Opened p, Wrote p (buffer tab),
                                    Launched \<lparr>args = cmd, shell = True\<rparr>]\<rparr>\<rparr>
     | Exited rc out \<Rightarrow>
         (case decode_output e out of
            None \<Rightarrow>
              \<lparr>raised = Some UnicodeDecodeError, tab_after = Some tab,
               world_after = w\<lparr>
                 disk := child_effect e ((disk w)(p \<mapsto> buffer tab)) \<lparr>args = cmd, shell = True\<rparr>,
                 journal := journal w @ [Opened p, Wrote p (buffer tab),
                                         Launched \<lparr>args = cmd, shell = True\<rparr>]\<rparr>\<rparr>
          | Some t \<Rightarrow>
              \<lparr>raised = None, tab_after = Some tab,
               world_after = w\<lparr>
                 disk := child_effect e ((disk w)(p \<mapsto> buffer tab)) \<lparr>args = cmd, shell = True\<rparr>,
                 journal := journal w @ [Opened p, Wrote p (buffer tab),
                                         Launched \<lparr>args = cmd, shell = True\<rparr>,
                                         Showed (if rc = 0
                                                 then Information (str ''Execution Output'') t
                                                 else Warning (str ''Execution Error'') t)]\<rparr>\<rparr>))"
  using assms
  by (simp add: run_script_def save_with_path check_output_def message_box_def Let_def
      split: proc_result.splits option.splits)

lemma launches_after_run:
  assumes "file_path tab = Some p" and "p \<noteq> []"
    and "interpreter_cmd (snd (splitext p)) p = Some cmd"
  shows "launches (world_after (run_script e (Some tab) w)) =
         launches w @ (if open_fails e p = None \<and> well_formed (buffer tab)
                       then [\<lparr>args = cmd, shell = True\<rparr>] else [])"
proof (cases "open_fails e p")
  case (Some msg)
  then show ?thesis
    by (simp add: run_script_open_fails [OF assms Some])
next
  case None
  show ?thesis
  proof (cases "well_formed (buffer tab)")
    case True
    show ?thesis
      by (simp add: run_script_launches [OF assms None True] launches_def None True
          split: proc_result.splits option.splits)
  next
    case False
    show ?thesis
      by (simp add: run_script_write_fails [OF assms None False] launches_def None False)
  qed
qed

lemma ext_py: "snd (splitext (str ''C:/scripts/new.py'')) = str ''.py''" by code_simp
lemma ext_ps1: "snd (splitext (str ''C:/scripts/setup.ps1'')) = str ''.ps1''" by code_simp
lemma ext_txt: "snd (splitext (str ''C:/scripts/notes.txt'')) = str ''.txt''" by code_simp
lemma ext_amp: "snd (splitext (str ''C:/scripts/a&calc.py'')) = str ''.py''" by code_simp

lemma env_answering_simps [simp]:
  "open_fails (env_answering r) p = None"
  "run_process (env_answering r) d q = r"
  "child_effect (env_answering r) d q = d"
  "decode_output (env_answering r) = utf8_text_mode"
  by (simp_all add: env_answering_def never_fails_def answers_def leaves_disk_def)

lemma tab_of_simps [simp]:
  "file_path (tab_of path content) = Some (str path)"
  "buffer (tab_of path content) = str content"
  by (simp_all add: tab_of_def)

lemma fresh_world_simps [simp]:
  "journal fresh_world = []" "disk fresh_world p = None"
  "launches fresh_world = []" "dialogs fresh_world = []"
  by (simp_all add: fresh_world_def no_files_def launches_def dialogs_def)

lemma world_with_simps [simp]:
  "journal (world_with path content) = []"
  "disk (world_with path content) = no_files(str path \<mapsto> str content)"
  "launches (world_with path content) = []" "dialogs (world_with path content) = []"
  by (simp_all add: world_with_def fresh_world_def launches_def dialogs_def)

lemma utf8_text_mode_ok [simp]: "utf8_text_mode (str ''ok'') = Some (str ''ok'')"
  by (simp add: utf8_text_mode_def str_def)

lemma utf8_text_mode_boom [simp]: "utf8_text_mode (str ''boom'') = Some (str ''boom'')"
  by (simp add: utf8_text_mode_def str_def)

lemma utf8_text_mode_bad [simp]: "utf8_text_mode [0x67, 0x72, 0x81, 0x6E] = None"
  by (simp add: utf8_text_mode_def)



text \<open>
  Claim C10. On a tab whose path has an extension other than \<open>.py\<close>, \<open>.bat\<close> and
  \<open>.ps1\<close>, \<open>run_script\<close> returns from its unsupported-type branch before the save:
  the disk is what it was, nothing is launched, only the warning is shown, and the tab
  is unchanged.
\<close>

theorem run_script_unsupported_leaves_disk:
  assumes "file_path tab = Some p" and "p \<noteq> []"
    and "snd (splitext p) \<notin> {str ''.py'', str ''.bat'', str ''.ps1''}"
  shows "disk (world_after (run_script e (Some tab) w)) = disk w
       \<and> launches (world_after (run_script e (Some tab) w)) = launches w
       \<and> dialogs (world_after (run_script e (Some tab) w)) =
           dialogs w @ [Warning (str ''Run Script'') (str ''Unsupported script type!'')]
       \<and> raised (run_script e (Some tab) w) = None
       \<and> tab_after (run_script e (Some tab) w) = Some tab"
proof -
  have "interpreter_cmd (snd (splitext p)) p = None"
    using assms(3) by (simp add: interpreter_cmd_None)
  from run_script_unsupported [OF assms(1,2) this] show ?thesis
    by (simp add: launches_def dialogs_def)
qed

theorem run_script_unsupported_leaves_disk_witness:
  "disk (world_after (run_script (env_answering (Exited 0 (str ''ok'')))
       (Some (tab_of ''C:/scripts/notes.txt'' ''hello'')) (world_with ''C:/scripts/notes.txt'' ''old'')))
     (str ''C:/scripts/notes.txt'') = Some (str ''old'')
   \<and> launches (world_after (run_script (env_answering (Exited 0 (str ''ok'')))
       (Some (tab_of ''C:/scripts/notes.txt'' ''hello'')) (world_with ''C:/scripts/notes.txt'' ''old''))) = []"
proof -
  have unsup: "str ''.txt'' \<notin> {str ''.py'', str ''.bat'', str ''.ps1''}"
    by (simp add: str_def)
  show ?thesis
    using run_script_unsupported_leaves_disk [of "tab_of ''C:/scripts/notes.txt'' ''hello''"
        "str ''C:/scripts/notes.txt''" "env_answering (Exited 0 (str ''ok''))"
        "world_with ''C:/scripts/notes.txt'' ''old''"] unsup
    by (simp add: ext_txt)
qed

text \<open>
  Claim C4 at the path \<open>C:/scripts/a&calc.py\<close>: the launcher is called with the
  argument list \<open>python\<close>, \<open>C:/scripts/a&calc.py\<close> and with \<open>shell=True\<close>, so on
  Windows the line handed to the command interpreter is
  \<open>cmd.exe /c "python C:/scripts/a&calc.py"\<close>, with the path unquoted and its \<open>&\<close>
  open to the interpreter.
\<close>

theorem run_script_shell_reinterprets_path:
  "launches (world_after (run_script (env_answering (Exited 0 (str ''ok'')))
       (Some (tab_of ''C:/scripts/a&calc.py'' ''print(1)'')) fresh_world)) =
     [\<lparr>args = [str ''python'', str ''C:/scripts/a&calc.py''], shell = True\<rparr>]
   \<and> popen_command_line (str ''cmd.exe'')
       \<lparr>args = [str ''python'', str ''C:/scripts/a&calc.py''], shell = True\<rparr> =
     str ''cmd.exe /c '' @ [0x22] @ str ''python C:/scripts/a&calc.py'' @ [0x22]"
proof -
  have "launches (world_after (run_script (env_answering (Exited 0 (str ''ok'')))
       (Some (tab_of ''C:/scripts/a&calc.py'' ''print(1)'')) fresh_world)) =
     [\<lparr>args = [str ''python'', str ''C:/scripts/a&calc.py''], shell = True\<rparr>]"
    using launches_after_run [of "tab_of ''C:/scripts/a&calc.py'' ''print(1)''"
        "str ''C:/scripts/a&calc.py''" "[str ''python'', str ''C:/scripts/a&calc.py'']"
        "env_answering (Exited 0 (str ''ok''))" fresh_world]
    by (simp add: ext_amp cmd_py)
  moreover have "popen_command_line (str ''cmd.exe'')
       \<lparr>args = [str ''python'', str ''C:/scripts/a&calc.py''], shell = True\<rparr> =
     str ''cmd.exe /c '' @ [0x22] @ str ''python C:/scripts/a&calc.py'' @ [0x22]"
    by code_simp
  ultimately show ?thesis by simp
qed

text \<open>
  Claim C2, as stated, fails: \<open>check_output\<close> decodes the captured bytes strictly
  before it looks at the return code, and \<open>run_script\<close> catches \<open>CalledProcessError\<close>
  only. A child that prints the bytes \<open>67 72 81 6E\<close>, which are not UTF-8, and exits,
  with code 0 or with code 1, makes \<open>run_script\<close> raise \<open>UnicodeDecodeError\<close>; no box
  is shown and the run is not classified.
\<close>

theorem run_script_undecodable_output_counterexample:
  "raised (run_script (env_answering (Exited 0 [0x67, 0x72, 0x81, 0x6E]))
       (Some (tab_of ''C:/scripts/new.py'' ''print(1)'')) fresh_world) = Some UnicodeDecodeError
   \<and> dialogs (world_after (run_script (env_answering (Exited 0 [0x67, 0x72, 0x81, 0x6E]))
       (Some (tab_of ''C:/scripts/new.py'' ''print(1)'')) fresh_world)) = []
   \<and> raised (run_script (env_answering (Exited 1 [0x67, 0x72, 0x81, 0x6E]))
       (Some (tab_of ''C:/scripts/new.py'' ''print(1)'')) fresh_world) = Some UnicodeDecodeError
   \<and> dialogs (world_after (run_script (env_answering (Exited 1 [0x67, 0x72, 0x81, 0x6E]))
       (Some (tab_of ''C:/scripts/new.py'' ''print(1)'')) fresh_world)) = []"
  using run_script_launches [of "tab_of ''C:/scripts/new.py'' ''print(1)''"
      "str ''C:/scripts/new.py''" "[str ''python'', str ''C:/scripts/new.py'']"
      "env_answering (Exited 0 [0x67, 0x72, 0x81, 0x6E])" fresh_world]
    run_script_launches [of "tab_of ''C:/scripts/new.py'' ''print(1)''"
      "str ''C:/scripts/new.py''" "[str ''python'', str ''C:/scripts/new.py'']"
      "env_answering (Exited 1 [0x67, 0x72, 0x81, 0x6E])" fresh_world]
  by (simp add: ext_py cmd_py dialogs_def)

text \<open>
  Claim C2, amended. When the script has been saved and its child process exits, the
  captured bytes are decoded first. When they decode, the return code classifies the
  run: code 0 shows the decoded output in the information box "Execution Output" (the
  run succeeded); any other code shows it in the warning box "Execution Error" (the
  run failed, its output still shown); nothing is raised. When they do not decode,
  \<open>UnicodeDecodeError\<close> propagates and no box is shown, whatever the return code.
\<close>

theorem run_script_classifies_exit_code:
  assumes "file_path tab = Some p" and "p \<noteq> []"
    and "interpreter_cmd (snd (splitext p)) p = Some cmd"
    and "open_fails e p = None" and "well_formed (buffer tab)"
    and "run_process e ((disk w)(p \<mapsto> buffer tab)) \<lparr>args = cmd, shell = True\<rparr> = Exited rc out"
  shows "(\<forall>t. decode_output e out = Some t \<longrightarrow>
            raised (run_script e (Some tab) w) = None
            \<and> dialogs (world_after (run_script e (Some tab) w)) =
                dialogs w @ [if rc = 0 then Information (str ''Execution Output'') t
                             else Warning (str ''Execution Error'') t])
       \<and> (decode_output e out = None \<longrightarrow>
            raised (run_script e (Some tab) w) = Some UnicodeDecodeError
            \<and> dialogs (world_after (run_script e (Some tab) w)) = dialogs w)"
  by (simp add: run_script_launches [OF assms(1-5)] assms(6) dialogs_def)

theorem run_script_classifies_exit_code_witness:
  "dialogs (world_after (run_script (env_answering (Exited 0 (str ''ok'')))
       (Some (tab_of ''C:/scripts/new.py'' ''print(1)'')) fresh_world)) =
     [Information (str ''Execution Output'') (str ''ok'')]
   \<and> dialogs (world_after (run_script (env_answering (Exited 1 (str ''boom'')))
       (Some (tab_of ''C:/scripts/new.py'' ''print(1)'')) fresh_world)) =
     [Warning (str ''Execution Error'') (str ''boom'')]
   \<and> raised (run_script (env_answering (Exited 1 (str ''boom'')))
       (Some (tab_of ''C:/scripts/new.py'' ''print(1)'')) fresh_world) = None
   \<and> raised (run_script (env_answering (Exited 1 [0x67, 0x72, 0x81, 0x6E]))
       (Some (tab_of ''C:/scripts/new.py'' ''print(1)'')) fresh_world) = Some UnicodeDecodeError"
  using run_script_classifies_exit_code [of "tab_of ''C:/scripts/new.py'' ''print(1)''"
      "str ''C:/scripts/new.py''" "[str ''python'', str ''C:/scripts/new.py'']"
      "env_answering (Exited 0 (str ''ok''))" fresh_world 0 "str ''ok''"]
    run_script_classifies_exit_code [of "tab_of ''C:/scripts/new.py'' ''print(1)''"
      "str ''C:/scripts/new.py''" "[str ''python'', str ''C:/scripts/new.py'']"
      "env_answering (Exited 1 (str ''boom''))" fresh_world 1 "str ''boom''"]
    run_script_classifies_exit_code [of "tab_of ''C:/scripts/new.py'' ''print(1)''"
      "str ''C:/scripts/new.py''" "[str ''python'', str ''C:/scripts/new.py'']"
      "env_answering (Exited 1 [0x67, 0x72, 0x81, 0x6E])" fresh_world 1
      "[0x67, 0x72, 0x81, 0x6E]"]
  by (simp add: ext_py cmd_py)




text \<open>
  Claim C5, as stated, fails: \<open>run_script\<close> catches \<open>CalledProcessError\<close> only. When the
  system cannot create the child process, the \<open>OSError\<close> of \<open>check_output\<close> leaves
  \<open>run_script\<close> uncaught and no box is shown.
\<close>

theorem run_script_launch_failure_counterexample:
  "raised (run_script (env_answering (NotCreated (str ''The system cannot find the file specified'')))
       (Some (tab_of ''C:/scripts/new.py'' ''print(1)'')) fresh_world) =
     Some (OSError (str ''The system cannot find the file specified''))
   \<and> dialogs (world_after (run_script
       (env_answering (NotCreated (str ''The system cannot find the file specified'')))
       (Some (tab_of ''C:/scripts/new.py'' ''print(1)'')) fresh_world)) = []"
  using run_script_launches [of "tab_of ''C:/scripts/new.py'' ''print(1)''"
      "str ''C:/scripts/new.py''" "[str ''python'', str ''C:/scripts/new.py'']"
      "env_answering (NotCreated (str ''The system cannot find the file specified''))" fresh_world]
  by (simp add: ext_py cmd_py dialogs_def)

text \<open>
  Claim C5, amended. For a run whose save before the run went through: when the
  system cannot create the child process at all, the \<open>OSError\<close> with the system's
  error text propagates to the caller of \<open>run_script\<close>, after the save and the call to
  the launcher, and no box is shown. A failure that reaches \<open>run_script\<close> as a non-zero
  return code (as the intermediate shell reports an interpreter it cannot start) is
  shown in the warning box "Execution Error" with the captured output, provided that
  output decodes, and nothing is raised.
\<close>

theorem run_script_launch_failure_propagates:
  assumes "file_path tab = Some p" and "p \<noteq> []"
    and "interpreter_cmd (snd (splitext p)) p = Some cmd"
    and "open_fails e p = None" and "well_formed (buffer tab)"
  shows "(\<forall>msg. run_process e ((disk w)(p \<mapsto> buffer tab)) \<lparr>args = cmd, shell = True\<rparr>
                  = NotCreated msg \<longrightarrow>
            raised (run_script e (Some tab) w) = Some (OSError msg)
            \<and> dialogs (world_after (run_script e (Some tab) w)) = dialogs w
            \<and> launches (world_after (run_script e (Some tab) w)) =
                launches w @ [\<lparr>args = cmd, shell = True\<rparr>]
            \<and> disk (world_after (run_script e (Some tab) w)) = (disk w)(p \<mapsto> buffer tab))
       \<and> (\<forall>rc out t. run_process e ((disk w)(p \<mapsto> buffer tab)) \<lparr>args = cmd, shell = True\<rparr>
                  = Exited rc out \<and> rc \<noteq> 0 \<and> decode_output e out = Some t \<longrightarrow>
            raised (run_script e (Some tab) w) = None
            \<and> dialogs (world_after (run_script e (Some tab) w)) =
                dialogs w @ [Warning (str ''Execution Error'') t])"
  by (simp add: run_script_launches [OF assms] dialogs_def launches_def)

theorem run_script_launch_failure_propagates_witness:
  "raised (run_script (env_answering (NotCreated (str ''Access is denied'')))
       (Some (tab_of ''C:/scripts/setup.ps1'' ''ls'')) fresh_world) =
     Some (OSError (str ''Access is denied''))
   \<and> dialogs (world_after (run_script (env_answering (NotCreated (str ''Access is denied'')))
       (Some (tab_of ''C:/scripts/setup.ps1'' ''ls'')) fresh_world)) = []
   \<and> launches (world_after (run_script (env_answering (NotCreated (str ''Access is denied'')))
       (Some (tab_of ''C:/scripts/setup.ps1'' ''ls'')) fresh_world)) =
     [\<lparr>args = [str ''powershell'', str ''-File'', str ''C:/scripts/setup.ps1''], shell = True\<rparr>]
   \<and> dialogs (world_after (run_script (env_answering (Exited 1 (str ''boom'')))
       (Some (tab_of ''C:/scripts/setup.ps1'' ''ls'')) fresh_world)) =
     [Warning (str ''Execution Error'') (str ''boom'')]"
  using run_script_launch_failure_propagates [of "tab_of ''C:/scripts/setup.ps1'' ''ls''"
      "str ''C:/scripts/setup.ps1''"
      "[str ''powershell'', str ''-File'', str ''C:/scripts/setup.ps1'']"
      "env_answering (NotCreated (str ''Access is denied''))" fresh_world]
    run_script_launch_failure_propagates [of "tab_of ''C:/scripts/setup.ps1'' ''ls''"
      "str ''C:/scripts/setup.ps1''"
      "[str ''powershell'', str ''-File'', str ''C:/scripts/setup.ps1'']"
      "env_answering (Exited 1 (str ''boom''))" fresh_world]
  by (simp add: ext_ps1 interpreter_cmd_def)




section \<open>Properties of the terminal\<close>

lemma strip_dir: "strip (str ''  dir  '') = str ''dir''"
  by (simp add: strip_def str_def isspace_def)

lemma encode_dir: "encode_utf8 (str ''dir'') = Ok (str ''dir'')"
  by (simp add: str_def encode_char_def)

lemma strip_surrogate: "strip [0x64, 0xD800] = [0x64, 0xD800]"
  by (simp add: strip_def isspace_def)

lemma surrogate_ill_formed: "\<not> well_formed [0x64, 0xD800]"
  by (simp add: well_formed_def is_surrogate_def)

lemma handle_keypress_other_key:
  "key \<noteq> Key_Return \<Longrightarrow> handle_keypress write key tw = (None, tw)"
  by (simp add: handle_keypress_def)

lemma handle_keypress_blank:
  "strip (input_text tw) = [] \<Longrightarrow>
   handle_keypress write Key_Return tw = (None, tw\<lparr>input_text := []\<rparr>)"
  by (simp add: handle_keypress_def)

lemma handle_keypress_encodes:
  assumes "strip (input_text tw) \<noteq> []" and "encode_utf8 (strip (input_text tw)) = Ok bs"
  shows "handle_keypress write Key_Return tw =
    (None, tw\<lparr>input_text := [], process := write (bs @ [0x0A]) (process tw)\<rparr>)"
  using assms by (simp add: handle_keypress_def Let_def encode_newline)

lemma handle_keypress_ill_formed:
  assumes "\<not> well_formed (strip (input_text tw))"
  shows "handle_keypress write Key_Return tw = (Some UnicodeEncodeError, tw\<lparr>input_text := []\<rparr>)"
proof -
  have "strip (input_text tw) \<noteq> []"
    using assms by (auto simp: well_formed_def)
  then show ?thesis
    using assms by (simp add: handle_keypress_def Let_def encode_newline_ill_formed)
qed

text \<open>
  Claim C7, as stated, fails: a key press can raise while the shell process is not
  running. Before \<open>start\<close>, with the text \<open>d\<close> followed by the lone surrogate \<open>U+D800\<close>
  in the input box, the Return key makes \<open>handle_keypress\<close> raise \<open>UnicodeEncodeError\<close>.
\<close>

theorem handle_keypress_not_running_counterexample:
  "pstate (process (TerminalWidget\<lparr>input_text := [0x64, 0xD800]\<rparr>)) = NotRunning
   \<and> fst (handle_keypress qprocess_write Key_Return
         (TerminalWidget\<lparr>input_text := [0x64, 0xD800]\<rparr>)) = Some UnicodeEncodeError"
  using handle_keypress_ill_formed [of "TerminalWidget\<lparr>input_text := [0x64, 0xD800]\<rparr>"
      qprocess_write]
  by (simp add: strip_surrogate surrogate_ill_formed TerminalWidget_def QProcess_def)

text \<open>
  Claim C7, amended. \<open>handle_keypress\<close> has no check of the process state and never
  calls \<open>start\<close>: all it does to the process is one call of \<open>QProcess.write\<close>. While the
  shell process is not running, and given that \<open>QProcess.write\<close> leaves a \<open>QProcess\<close>
  that is not running as it is, a key press leaves the \<open>QProcess\<close> exactly as it was,
  so that nothing is spawned and no byte reaches a process input. It raises nothing
  when the key is not Return or the stripped text can be encoded, and raises
  \<open>UnicodeEncodeError\<close> on Return when the stripped text holds a lone surrogate.
\<close>

theorem handle_keypress_not_running:
  assumes "pstate (process tw) = NotRunning"
    and "\<forall>d p. pstate p = NotRunning \<longrightarrow> write d p = p"
  shows "process (snd (handle_keypress write key tw)) = process tw
       \<and> (key \<noteq> Key_Return \<longrightarrow> fst (handle_keypress write key tw) = None)
       \<and> (well_formed (strip (input_text tw)) \<longrightarrow> fst (handle_keypress write key tw) = None)
       \<and> (key = Key_Return \<and> \<not> well_formed (strip (input_text tw)) \<longrightarrow>
            fst (handle_keypress write key tw) = Some UnicodeEncodeError)"
proof (cases "key = Key_Return")
  case False
  then show ?thesis by (simp add: handle_keypress_other_key)
next
  case True
  show ?thesis
  proof (cases "well_formed (strip (input_text tw))")
    case wf: True
    then obtain bs where bs: "encode_utf8 (strip (input_text tw)) = Ok bs"
      using encode_well_formed by blast
    show ?thesis
    proof (cases "strip (input_text tw) = []")
      case True
      then show ?thesis using \<open>key = Key_Return\<close> wf by (simp add: handle_keypress_blank)
    next
      case False
      have "write (bs @ [0x0A]) (process tw) = process tw"
        using assms by simp
      then show ?thesis
        using \<open>key = Key_Return\<close> wf by (simp add: handle_keypress_encodes [OF False bs])
    qed
  next
    case False
    then show ?thesis
      using \<open>key = Key_Return\<close> by (simp add: handle_keypress_ill_formed)
  qed
qed

theorem handle_keypress_not_running_witness:
  "fst (handle_keypress qprocess_write Key_Return (TerminalWidget\<lparr>input_text := str ''  dir  ''\<rparr>))
     = None
   \<and> process (snd (handle_keypress qprocess_write Key_Return
         (TerminalWidget\<lparr>input_text := str ''  dir  ''\<rparr>))) = QProcess
   \<and> fst (handle_keypress qprocess_write Key_Return
         ((terminal_typed ''  dir  '')\<lparr>process := child_exits (process (terminal_typed ''  dir  ''))\<rparr>))
       = None
   \<and> child_stdin (process (snd (handle_keypress qprocess_write Key_Return
         ((terminal_typed ''  dir  '')\<lparr>process := child_exits (process (terminal_typed ''  dir  ''))\<rparr>))))
       = []
   \<and> process (snd (handle_keypress qprocess_write Key_Return
         (TerminalWidget\<lparr>input_text := [0x64, 0xD800]\<rparr>))) = QProcess"
proof -
  have refuses: "\<forall>d p. pstate p = NotRunning \<longrightarrow> qprocess_write d p = p"
    by (simp add: qprocess_write_def)
  show ?thesis
    using handle_keypress_not_running [of "TerminalWidget\<lparr>input_text := str ''  dir  ''\<rparr>"
        qprocess_write Key_Return]
      handle_keypress_not_running [of
        "(terminal_typed ''  dir  '')\<lparr>process := child_exits (process (terminal_typed ''  dir  ''))\<rparr>"
        qprocess_write Key_Return]
      handle_keypress_not_running [of "TerminalWidget\<lparr>input_text := [0x64, 0xD800]\<rparr>"
        qprocess_write Key_Return]
      refuses
    by (simp add: strip_dir TerminalWidget_def QProcess_def terminal_typed_def start_def
        qprocess_start_def child_exits_def)
qed

text \<open>
  Claim C8, as stated, fails: a text that is not empty after trimming is not always
  written. With a running shell and the text \<open>d\<close> followed by the lone surrogate
  \<open>U+D800\<close> in the input box, the Return key raises \<open>UnicodeEncodeError\<close> and no byte
  reaches the input of the child.
\<close>

theorem handle_keypress_unencodable_counterexample:
  "pstate (process ((terminal_typed [])\<lparr>input_text := [0x64, 0xD800]\<rparr>)) = Running
   \<and> strip (input_text ((terminal_typed [])\<lparr>input_text := [0x64, 0xD800]\<rparr>)) = [0x64, 0xD800]
   \<and> handle_keypress qprocess_write Key_Return ((terminal_typed [])\<lparr>input_text := [0x64, 0xD800]\<rparr>)
       = (Some UnicodeEncodeError, (terminal_typed [])\<lparr>input_text := []\<rparr>)
   \<and> child_stdin (process (snd (handle_keypress qprocess_write Key_Return
         ((terminal_typed [])\<lparr>input_text := [0x64, 0xD800]\<rparr>)))) = []"
  using handle_keypress_ill_formed [of "(terminal_typed [])\<lparr>input_text := [0x64, 0xD800]\<rparr>"
      qprocess_write]
  by (simp add: strip_surrogate surrogate_ill_formed terminal_typed_def start_def
      qprocess_start_def TerminalWidget_def QProcess_def)

text \<open>
  Claim C8, amended. On the Return key: when the text of the input box is empty after
  \<open>strip\<close>, the input box is cleared and nothing else changes, so nothing is written;
  when it is not empty and can be encoded, the input box is cleared and
  \<open>QProcess.write\<close> is called once, with exactly the UTF-8 bytes of the stripped text
  followed by one line feed, and with a running shell these bytes are what the input
  of the child receives; when it holds a lone surrogate, the input box is cleared,
  \<open>UnicodeEncodeError\<close> is raised and nothing is written.
\<close>

theorem handle_keypress_writes_command:
  shows "(strip (input_text tw) = [] \<longrightarrow>
            handle_keypress write Key_Return tw = (None, tw\<lparr>input_text := []\<rparr>))
       \<and> (strip (input_text tw) \<noteq> [] \<and> well_formed (strip (input_text tw)) \<longrightarrow>
            (\<exists>bs. encode_utf8 (strip (input_text tw)) = Ok bs
              \<and> handle_keypress write Key_Return tw =
                  (None, tw\<lparr>input_text := [],
                            process := write (bs @ [0x0A]) (process tw)\<rparr>)
              \<and> (pstate (process tw) = Running \<longrightarrow>
                   handle_keypress qprocess_write Key_Return tw =
                     (None, tw\<lparr>input_text := [],
                        process := (process tw)\<lparr>child_stdin :=
                          child_stdin (process tw) @ bs @ [0x0A]\<rparr>\<rparr>))))
       \<and> (\<not> well_formed (strip (input_text tw)) \<longrightarrow>
            handle_keypress write Key_Return tw =
              (Some UnicodeEncodeError, tw\<lparr>input_text := []\<rparr>))"
proof (intro conjI impI)
  assume "strip (input_text tw) = []"
  then show "handle_keypress write Key_Return tw = (None, tw\<lparr>input_text := []\<rparr>)"
    by (rule handle_keypress_blank)
next
  assume a: "strip (input_text tw) \<noteq> [] \<and> well_formed (strip (input_text tw))"
  then obtain bs where bs: "encode_utf8 (strip (input_text tw)) = Ok bs"
    using encode_well_formed by blast
  from a have ne: "strip (input_text tw) \<noteq> []" by simp
  have general: "handle_keypress write Key_Return tw =
      (None, tw\<lparr>input_text := [], process := write (bs @ [0x0A]) (process tw)\<rparr>)"
    by (rule handle_keypress_encodes [OF ne bs])
  have running: "pstate (process tw) = Running \<longrightarrow>
      handle_keypress qprocess_write Key_Return tw =
        (None, tw\<lparr>input_text := [],
           process := (process tw)\<lparr>child_stdin := child_stdin (process tw) @ bs @ [0x0A]\<rparr>\<rparr>)"
    by (simp add: handle_keypress_encodes [OF ne bs] qprocess_write_def)
  from bs general running
  show "\<exists>bs. encode_utf8 (strip (input_text tw)) = Ok bs
              \<and> handle_keypress write Key_Return tw =
                  (None, tw\<lparr>input_text := [],
                            process := write (bs @ [0x0A]) (process tw)\<rparr>)
              \<and> (pstate (process tw) = Running \<longrightarrow>
                   handle_keypress qprocess_write Key_Return tw =
                     (None, tw\<lparr>input_text := [],
                        process := (process tw)\<lparr>child_stdin :=
                          child_stdin (process tw) @ bs @ [0x0A]\<rparr>\<rparr>))"
    by blast
next
  assume "\<not> well_formed (strip (input_text tw))"
  then show "handle_keypress write Key_Return tw =
              (Some UnicodeEncodeError, tw\<lparr>input_text := []\<rparr>)"
    by (rule handle_keypress_ill_formed)
qed

theorem handle_keypress_writes_command_witness:
  "child_stdin (process (snd (handle_keypress qprocess_write Key_Return (terminal_typed ''  dir  ''))))
     = str ''dir'' @ [0x0A]
   \<and> input_text (snd (handle_keypress qprocess_write Key_Return (terminal_typed ''  dir  ''))) = []
   \<and> handle_keypress qprocess_write Key_Return (terminal_typed ''   '')
     = (None, (terminal_typed ''   '')\<lparr>input_text := []\<rparr>)"
proof -
  have blank: "strip (input_text (terminal_typed ''   '')) = []"
    by (simp add: terminal_typed_def strip_def str_def isspace_def)
  have typed: "strip (input_text (terminal_typed ''  dir  '')) = str ''dir''"
    by (simp add: terminal_typed_def strip_dir)
  have running: "pstate (process (terminal_typed ''  dir  '')) = Running"
    by (simp add: terminal_typed_def start_def qprocess_start_def TerminalWidget_def QProcess_def)
  have nonempty: "str ''dir'' \<noteq> []" by (simp add: str_def)
  have stdin0: "child_stdin (process (terminal_typed ''  dir  '')) = []"
    by (simp add: terminal_typed_def start_def qprocess_start_def TerminalWidget_def QProcess_def)
  show ?thesis
    using handle_keypress_writes_command [of "terminal_typed ''  dir  ''" qprocess_write]
      handle_keypress_writes_command [of "terminal_typed ''   ''" qprocess_write]
    by (auto simp: blank typed running nonempty stdin0 encode_dir qprocess_write_def)
qed

text \<open>
  Claim C9, as stated, fails: each chunk is decoded by itself with the error handler
  \<open>strict\<close>. The two bytes \<open>C3 A9\<close> of the character \<open>U+00E9\<close>, arriving on standard
  output in two chunks, make \<open>on_stdout\<close> raise \<open>UnicodeDecodeError\<close> at the first
  chunk; nothing is appended to the output and the byte is not kept for the next chunk.
\<close>

theorem deliver_split_character_counterexample:
  "encode_utf8 [0xE9] = Ok [0xC3, 0xA9]
   \<and> fst (deliver [(Stdout, [0xC3]), (Stdout, [0xA9])] (terminal_typed [])) =
       Some UnicodeDecodeError
   \<and> output_log (snd (deliver [(Stdout, [0xC3]), (Stdout, [0xA9])] (terminal_typed []))) = []
   \<and> stdout_buf (process (snd (deliver [(Stdout, [0xC3]), (Stdout, [0xA9])] (terminal_typed []))))
       = []"
  by (simp add: encode_char_def terminal_typed_def start_def qprocess_start_def
      TerminalWidget_def QProcess_def on_stdout_def readAllStandardOutput_def
      stdout_arrives_def str_def)

text \<open>
  Claim C9, amended. Both slots decode with the fixed encoding UTF-8 and the error
  handler \<open>strict\<close>, one chunk at a time and without a buffer of their own. When the
  unread bytes of the stream are the UTF-8 encoding of a text, the slot empties the
  buffer and appends that text to the output, raising nothing. When they are not
  well-formed UTF-8 by themselves, and in particular when they end inside the bytes
  of a multi-byte character, the slot raises \<open>UnicodeDecodeError\<close>: the bytes read are
  dropped and nothing is appended.
\<close>

theorem slots_decode_each_chunk_strictly:
  shows "(\<forall>s. encode_utf8 s = Ok (stdout_buf (process tw)) \<longrightarrow>
            on_stdout tw =
              (None, tw\<lparr>process := (process tw)\<lparr>stdout_buf := []\<rparr>,
                        output_log := output_log tw @ [s]\<rparr>))
       \<and> (\<forall>x. decode_utf8 (stdout_buf (process tw)) = Raise x \<longrightarrow>
            on_stdout tw =
              (Some UnicodeDecodeError, tw\<lparr>process := (process tw)\<lparr>stdout_buf := []\<rparr>\<rparr>))
       \<and> (\<forall>s bs c cb n. encode_utf8 s = Ok bs \<and> encode_char c = Some cb
              \<and> 0 < n \<and> n < length cb \<and> stdout_buf (process tw) = bs @ take n cb \<longrightarrow>
            on_stdout tw =
              (Some UnicodeDecodeError, tw\<lparr>process := (process tw)\<lparr>stdout_buf := []\<rparr>\<rparr>))
       \<and> (\<forall>s. encode_utf8 s = Ok (stderr_buf (process tw)) \<longrightarrow>
            on_stderr tw =
              (None, tw\<lparr>process := (process tw)\<lparr>stderr_buf := []\<rparr>,
                        output_log := output_log tw @ [s]\<rparr>))
       \<and> (\<forall>x. decode_utf8 (stderr_buf (process tw)) = Raise x \<longrightarrow>
            on_stderr tw =
              (Some UnicodeDecodeError, tw\<lparr>process := (process tw)\<lparr>stderr_buf := []\<rparr>\<rparr>))
       \<and> (\<forall>s bs c cb n. encode_utf8 s = Ok bs \<and> encode_char c = Some cb
              \<and> 0 < n \<and> n < length cb \<and> stderr_buf (process tw) = bs @ take n cb \<longrightarrow>
            on_stderr tw =
              (Some UnicodeDecodeError, tw\<lparr>process := (process tw)\<lparr>stderr_buf := []\<rparr>\<rparr>))"
proof -
  have trunc: "decode_utf8 (bs @ take n cb) = Raise UnicodeDecodeError"
    if "encode_utf8 s = Ok bs" "encode_char c = Some cb" "0 < n" "n < length cb"
    for s bs c cb n
    using decode_encode_append [OF that(1), of "take n cb"]
      decode_truncated_char [OF that(2) that(3) that(4)]
    by simp
  have out_ok: "on_stdout tw =
      (None, tw\<lparr>process := (process tw)\<lparr>stdout_buf := []\<rparr>, output_log := output_log tw @ [s]\<rparr>)"
    if "encode_utf8 s = Ok (stdout_buf (process tw))" for s
    using decode_encode [OF that] by (simp add: on_stdout_def readAllStandardOutput_def)
  have out_bad: "on_stdout tw =
      (Some UnicodeDecodeError, tw\<lparr>process := (process tw)\<lparr>stdout_buf := []\<rparr>\<rparr>)"
    if "decode_utf8 (stdout_buf (process tw)) = Raise x" for x
    using that decode_raises [OF that] by (simp add: on_stdout_def readAllStandardOutput_def)
  have err_ok: "on_stderr tw =
      (None, tw\<lparr>process := (process tw)\<lparr>stderr_buf := []\<rparr>, output_log := output_log tw @ [s]\<rparr>)"
    if "encode_utf8 s = Ok (stderr_buf (process tw))" for s
    using decode_encode [OF that] by (simp add: on_stderr_def readAllStandardError_def)
  have err_bad: "on_stderr tw =
      (Some UnicodeDecodeError, tw\<lparr>process := (process tw)\<lparr>stderr_buf := []\<rparr>\<rparr>)"
    if "decode_utf8 (stderr_buf (process tw)) = Raise x" for x
    using that decode_raises [OF that] by (simp add: on_stderr_def readAllStandardError_def)
  show ?thesis
  proof (intro conjI allI impI)
    fix s assume "encode_utf8 s = Ok (stdout_buf (process tw))"
    then show "on_stdout tw =
      (None, tw\<lparr>process := (process tw)\<lparr>stdout_buf := []\<rparr>, output_log := output_log tw @ [s]\<rparr>)"
      by (rule out_ok)
  next
    fix x assume "decode_utf8 (stdout_buf (process tw)) = Raise x"
    then show "on_stdout tw =
      (Some UnicodeDecodeError, tw\<lparr>process := (process tw)\<lparr>stdout_buf := []\<rparr>\<rparr>)"
      by (rule out_bad)
  next
    fix s bs c cb n
    assume "encode_utf8 s = Ok bs \<and> encode_char c = Some cb
              \<and> 0 < n \<and> n < length cb \<and> stdout_buf (process tw) = bs @ take n cb"
    then have "decode_utf8 (stdout_buf (process tw)) = Raise UnicodeDecodeError"
      using trunc [of s bs c cb n] by simp
    then show "on_stdout tw =
      (Some UnicodeDecodeError, tw\<lparr>process := (process tw)\<lparr>stdout_buf := []\<rparr>\<rparr>)"
      by (rule out_bad)
  next
    fix s assume "encode_utf8 s = Ok (stderr_buf (process tw))"
    then show "on_stderr tw =
      (None, tw\<lparr>process := (process tw)\<lparr>stderr_buf := []\<rparr>, output_log := output_log tw @ [s]\<rparr>)"
      by (rule err_ok)
  next
    fix x assume "decode_utf8 (stderr_buf (process tw)) = Raise x"
    then show "on_stderr tw =
      (Some UnicodeDecodeError, tw\<lparr>process := (process tw)\<lparr>stderr_buf := []\<rparr>\<rparr>)"
      by (rule err_bad)
  next
    fix s bs c cb n
    assume "encode_utf8 s = Ok bs \<and> encode_char c = Some cb
              \<and> 0 < n \<and> n < length cb \<and> stderr_buf (process tw) = bs @ take n cb"
    then have "decode_utf8 (stderr_buf (process tw)) = Raise UnicodeDecodeError"
      using trunc [of s bs c cb n] by simp
    then show "on_stderr tw =
      (Some UnicodeDecodeError, tw\<lparr>process := (process tw)\<lparr>stderr_buf := []\<rparr>\<rparr>)"
      by (rule err_bad)
  qed
qed

theorem slots_decode_each_chunk_strictly_witness:
  "on_stdout ((terminal_typed [])\<lparr>process :=
       stdout_arrives [0x68, 0xC3, 0xA9] (process (terminal_typed []))\<rparr>)
     = (None, (terminal_typed [])\<lparr>output_log := [[0x68, 0xE9]]\<rparr>)
   \<and> on_stdout ((terminal_typed [])\<lparr>process :=
       stdout_arrives [0x68, 0xC3] (process (terminal_typed []))\<rparr>)
     = (Some UnicodeDecodeError, terminal_typed [])"
proof -
  have buf: "stdout_buf (process (terminal_typed [])) = []"
    by (simp add: terminal_typed_def start_def qprocess_start_def TerminalWidget_def QProcess_def)
  show ?thesis
    using slots_decode_each_chunk_strictly [of "(terminal_typed [])\<lparr>process :=
       stdout_arrives [0x68, 0xC3, 0xA9] (process (terminal_typed []))\<rparr>",
       THEN conjunct1, rule_format, of "[0x68, 0xE9]"]
     slots_decode_each_chunk_strictly [of "(terminal_typed [])\<lparr>process :=
       stdout_arrives [0x68, 0xC3] (process (terminal_typed []))\<rparr>",
       THEN conjunct2, THEN conjunct2, THEN conjunct1, rule_format,
       of "[0x68]" "[0x68]" "0xE9" "[0xC3, 0xA9]" 1]
    by (simp add: encode_char_def buf stdout_arrives_def terminal_typed_def start_def
        qprocess_start_def TerminalWidget_def QProcess_def)
qed

end
